theory Spec2Isabelle
  imports Complex_Main "HOL-Library.AList"
begin

section \<open>Python values used by the conversation store\<close>

text \<open>
  A \<^verbatim>\<open>datetime\<close> is a point on the (naive, local) time line with microsecond
  resolution, a \<^verbatim>\<open>timedelta\<close> a signed number of microseconds. Every call of
  \<^verbatim>\<open>datetime.now()\<close> and of \<^verbatim>\<open>uuid.uuid4()\<close> in the source is an argument
  of the modelled operation: the model holds for every value the clock and the generator
  may return.
\<close>

type_synonym datetime = int
type_synonym timedelta = int

definition hours :: "int \<Rightarrow> timedelta" where
  "hours h = h * 3600 * 1000000"

definition seconds :: "int \<Rightarrow> timedelta" where
  "seconds n = n * 1000000"

text \<open>Values of the untyped dictionaries (context, user info, message metadata).\<close>

datatype pyval = PNone | PInt int | PStr string

type_synonym pydict = "(string \<times> pyval) list"

fun truthy :: "pyval \<Rightarrow> bool" where
  "truthy PNone = False"
| "truthy (PInt i) = (i \<noteq> 0)"
| "truthy (PStr s) = (s \<noteq> [])"

text \<open>
  A Python \<^verbatim>\<open>dict\<close> keeps insertion order and has one entry per key: an association
  list, written with \<^const>\<open>AList.update\<close> (replace in place, or append a new key).
  \<^verbatim>\<open>d.update(u)\<close> stores the entries of \<open>u\<close> one after the other.
\<close>

definition dict_update :: "('k \<times> 'v) list \<Rightarrow> ('k \<times> 'v) list \<Rightarrow> ('k \<times> 'v) list" where
  "dict_update d u = fold (\<lambda>(k, v). AList.update k v) u d"

text \<open>
  The \<^verbatim>\<open>timestamp\<close> entry of a message dictionary holds a \<^verbatim>\<open>datetime\<close> when
  the message is appended; \<^verbatim>\<open>export_conversation\<close> assigns a \<^verbatim>\<open>str\<close> to it.
\<close>

datatype tsval = Datetime datetime | IsoString string

datatype error = TypeError | AttributeError | KeyError | DanglingRef

section \<open>conversation\_manager.py: the data\<close>

record message =
  msg_id :: string
  role :: string
  content :: string
  timestamp :: tsval
  metadata :: pydict

text \<open>
  Message dictionaries are objects: the list under \<^verbatim>\<open>"messages"\<close> holds references
  to them, and \<^verbatim>\<open>dict.copy()\<close> (a shallow copy) copies the references. The model keeps
  the message objects in a heap and the references in the conversation.
\<close>

type_synonym addr = nat

record conversation =
  conv_id :: string
  created_at :: datetime
  last_activity :: datetime
  messages :: "addr list"
  conv_context :: pydict
  user_info :: pydict
  satisfaction_score :: "int option"
  escalated :: bool
  resolved :: bool
  escalation_reason :: "string option option"
  escalation_time :: "datetime option"
  resolved_at :: "datetime option"

text \<open>
  \<^verbatim>\<open>escalation_reason\<close>, \<^verbatim>\<open>escalation_time\<close> and \<^verbatim>\<open>resolved_at\<close> are keys that
  are absent (\<open>None\<close>) until \<^verbatim>\<open>escalate_conversation\<close> or \<^verbatim>\<open>resolve_conversation\<close>
  stores them; the stored reason may itself be Python's \<^verbatim>\<open>None\<close>.
\<close>

record manager =
  conversations :: "(string \<times> conversation) list"
  heap :: "addr \<Rightarrow> message option"
  next_addr :: addr
  max_conversation_age :: timedelta

definition init :: manager where
  "init = \<lparr>conversations = [], heap = (\<lambda>a. None), next_addr = 0,
            max_conversation_age = hours 24\<rparr>"

section \<open>conversation\_manager.py: the operations\<close>

definition create_conversation ::
  "manager \<Rightarrow> string \<Rightarrow> datetime \<Rightarrow> datetime \<Rightarrow> string \<times> manager" where
  "create_conversation s conversation_id t_created t_activity =
     (conversation_id,
      s\<lparr>conversations := AList.update conversation_id
           \<lparr>conv_id = conversation_id, created_at = t_created, last_activity = t_activity,
            messages = [], conv_context = [], user_info = [], satisfaction_score = None,
            escalated = False, resolved = False, escalation_reason = None,
            escalation_time = None, resolved_at = None\<rparr>
           (conversations s)\<rparr>)"

text \<open>
  \<^verbatim>\<open>add_message\<close>: \<open>mid\<close> is the \<^verbatim>\<open>uuid4()\<close> of the message, \<open>t_msg\<close> the
  \<^verbatim>\<open>now()\<close> of its timestamp and \<open>t_act\<close> the \<^verbatim>\<open>now()\<close> stored as last activity.
  \<^verbatim>\<open>metadata or {}\<close> replaces \<^verbatim>\<open>None\<close> (and an empty dictionary) by an empty one.
\<close>

definition add_message ::
  "manager \<Rightarrow> string \<Rightarrow> string \<Rightarrow> string \<Rightarrow> pydict option \<Rightarrow> string \<Rightarrow> datetime \<Rightarrow> datetime
     \<Rightarrow> bool \<times> manager" where
  "add_message s conversation_id r c md mid t_msg t_act =
     (case map_of (conversations s) conversation_id of
        None \<Rightarrow> (False, s)
      | Some conv \<Rightarrow>
          (let a = next_addr s;
               m = \<lparr>msg_id = mid, role = r, content = c, timestamp = Datetime t_msg,
                    metadata = (case md of None \<Rightarrow> [] | Some d \<Rightarrow> d)\<rparr>;
               conv' = conv\<lparr>messages := messages conv @ [a], last_activity := t_act\<rparr>
           in (True, s\<lparr>conversations := AList.update conversation_id conv' (conversations s),
                       heap := (heap s)(a \<mapsto> m), next_addr := Suc a\<rparr>)))"

definition get_conversation :: "manager \<Rightarrow> string \<Rightarrow> conversation option" where
  "get_conversation s conversation_id = map_of (conversations s) conversation_id"

text \<open>
  Python's \<^verbatim>\<open>xs[i:]\<close>: a negative start counts from the end, and the start is clipped
  to the list.
\<close>

definition slice_from :: "'a list \<Rightarrow> int \<Rightarrow> 'a list" where
  "slice_from xs i =
     (let n = int (length xs);
          j = (if i < 0 then max (n + i) 0 else min i n)
      in drop (nat j) xs)"

text \<open>\<^verbatim>\<open>if limit:\<close> is false for \<^verbatim>\<open>None\<close> and for \<open>0\<close>.\<close>

definition get_messages :: "manager \<Rightarrow> string \<Rightarrow> int option \<Rightarrow> addr list" where
  "get_messages s conversation_id limit =
     (case map_of (conversations s) conversation_id of
        None \<Rightarrow> []
      | Some conv \<Rightarrow>
          (case limit of
             None \<Rightarrow> messages conv
           | Some l \<Rightarrow> if l \<noteq> 0 then slice_from (messages conv) (- l) else messages conv))"

definition update_context ::
  "manager \<Rightarrow> string \<Rightarrow> pydict \<Rightarrow> datetime \<Rightarrow> bool \<times> manager" where
  "update_context s conversation_id context_updates t_act =
     (case map_of (conversations s) conversation_id of
        None \<Rightarrow> (False, s)
      | Some conv \<Rightarrow>
          (True, s\<lparr>conversations := AList.update conversation_id
                     (conv\<lparr>conv_context := dict_update (conv_context conv) context_updates,
                           last_activity := t_act\<rparr>)
                     (conversations s)\<rparr>))"

definition set_user_info :: "manager \<Rightarrow> string \<Rightarrow> pydict \<Rightarrow> bool \<times> manager" where
  "set_user_info s conversation_id info =
     (case map_of (conversations s) conversation_id of
        None \<Rightarrow> (False, s)
      | Some conv \<Rightarrow>
          (True, s\<lparr>conversations := AList.update conversation_id
                     (conv\<lparr>user_info := dict_update (user_info conv) info\<rparr>)
                     (conversations s)\<rparr>))"

text \<open>
  \<^verbatim>\<open>escalate_conversation\<close> stores the flag, the reason and \<open>t_esc\<close>, then calls
  \<^verbatim>\<open>add_message\<close> (with its own \<open>mid\<close>, \<open>t_msg\<close>, \<open>t_act\<close>) and ignores that
  call's result. \<^verbatim>\<open>reason or 'User request'\<close> replaces \<^verbatim>\<open>None\<close> and the empty
  string.
\<close>

definition escalation_text :: "string option \<Rightarrow> string" where
  "escalation_text reason =
     ''Conversation escalated to human agent. Reason: '' @
       (case reason of None \<Rightarrow> ''User request''
        | Some r \<Rightarrow> if r = [] then ''User request'' else r)"

definition escalate_conversation ::
  "manager \<Rightarrow> string \<Rightarrow> string option \<Rightarrow> datetime \<Rightarrow> string \<Rightarrow> datetime \<Rightarrow> datetime
     \<Rightarrow> bool \<times> manager" where
  "escalate_conversation s conversation_id reason t_esc mid t_msg t_act =
     (case map_of (conversations s) conversation_id of
        None \<Rightarrow> (False, s)
      | Some conv \<Rightarrow>
          (let s1 = s\<lparr>conversations := AList.update conversation_id
                        (conv\<lparr>escalated := True, escalation_reason := Some reason,
                              escalation_time := Some t_esc\<rparr>)
                        (conversations s)\<rparr>;
               s2 = snd (add_message s1 conversation_id ''system'' (escalation_text reason)
                          (Some [(''type'', PStr ''escalation''),
                                 (''reason'', (case reason of None \<Rightarrow> PNone | Some r \<Rightarrow> PStr r))])
                          mid t_msg t_act)
           in (True, s2)))"

definition resolve_conversation ::
  "manager \<Rightarrow> string \<Rightarrow> int option \<Rightarrow> datetime \<Rightarrow> bool \<times> manager" where
  "resolve_conversation s conversation_id score t_res =
     (case map_of (conversations s) conversation_id of
        None \<Rightarrow> (False, s)
      | Some conv \<Rightarrow>
          (let conv1 = conv\<lparr>resolved := True, resolved_at := Some t_res\<rparr>;
               conv2 = (case score of None \<Rightarrow> conv1
                        | Some n \<Rightarrow> conv1\<lparr>satisfaction_score := Some n\<rparr>)
           in (True, s\<lparr>conversations :=
                         AList.update conversation_id conv2 (conversations s)\<rparr>)))"

subsection \<open>Summary\<close>

record summary =
  sum_conversation_id :: string
  sum_created_at :: datetime
  sum_last_activity :: datetime
  duration_seconds :: "timedelta option"
  message_count :: nat
  message_counts :: "(string \<times> nat) list"
  intents_discussed :: "pyval list"
  sum_escalated :: bool
  sum_resolved :: bool
  sum_satisfaction_score :: "int option"
  sum_user_info :: pydict

text \<open>
  Reading the message objects a list of references points to. A reference without an
  object does not exist in Python; the model reports it as \<^const>\<open>DanglingRef\<close>.
\<close>

definition deref_all :: "(addr \<Rightarrow> message option) \<Rightarrow> addr list \<Rightarrow> message list option" where
  "deref_all h as = those (map h as)"

text \<open>\<^verbatim>\<open>message_counts[role] = message_counts.get(role, 0) + 1\<close>, for every message.\<close>

fun count_roles :: "message list \<Rightarrow> (string \<times> nat) list \<Rightarrow> (string \<times> nat) list" where
  "count_roles [] mc = mc"
| "count_roles (m # ms) mc =
     count_roles ms
       (AList.update (role m) ((case map_of mc (role m) of None \<Rightarrow> 0 | Some n \<Rightarrow> n) + 1) mc)"

text \<open>
  The intents of the assistant messages, in first-seen order: \<^verbatim>\<open>.get("intent")\<close> is
  \<^verbatim>\<open>None\<close> for a missing key, and \<^verbatim>\<open>if intent and intent not in intents\<close> skips
  falsy and repeated values.
\<close>

fun collect_intents :: "message list \<Rightarrow> pyval list \<Rightarrow> pyval list" where
  "collect_intents [] intents = intents"
| "collect_intents (m # ms) intents =
     (if role m = ''assistant'' then
        (let intent = (case map_of (metadata m) ''intent'' of None \<Rightarrow> PNone | Some v \<Rightarrow> v)
         in if truthy intent \<and> intent \<notin> set intents
            then collect_intents ms (intents @ [intent])
            else collect_intents ms intents)
      else collect_intents ms intents)"

text \<open>
  \<^verbatim>\<open>(end_time - start_time).total_seconds()\<close> of the first and the last message, kept as
  the exact microsecond count. The subtraction raises \<^verbatim>\<open>TypeError\<close> unless both
  operands are \<^verbatim>\<open>datetime\<close>s.
\<close>

definition duration_of :: "message list \<Rightarrow> error + timedelta option" where
  "duration_of msgs =
     (if msgs = [] then Inr None
      else (case (timestamp (hd msgs), timestamp (last msgs)) of
              (Datetime start_time, Datetime end_time) \<Rightarrow> Inr (Some (end_time - start_time))
            | _ \<Rightarrow> Inl TypeError))"

definition get_conversation_summary :: "manager \<Rightarrow> string \<Rightarrow> error + summary option" where
  "get_conversation_summary s conversation_id =
     (case map_of (conversations s) conversation_id of
        None \<Rightarrow> Inr None
      | Some conv \<Rightarrow>
          (case deref_all (heap s) (messages conv) of
             None \<Rightarrow> Inl DanglingRef
           | Some msgs \<Rightarrow>
               (case duration_of msgs of
                  Inl e \<Rightarrow> Inl e
                | Inr duration \<Rightarrow>
                    Inr (Some \<lparr>sum_conversation_id = conversation_id,
                               sum_created_at = created_at conv,
                               sum_last_activity = last_activity conv,
                               duration_seconds = duration,
                               message_count = length msgs,
                               message_counts = count_roles msgs [],
                               intents_discussed = collect_intents msgs [],
                               sum_escalated = escalated conv,
                               sum_resolved = resolved conv,
                               sum_satisfaction_score = satisfaction_score conv,
                               sum_user_info = user_info conv\<rparr>))))"

subsection \<open>Eviction\<close>

text \<open>
  \<^verbatim>\<open>del self.conversations[conv_id]\<close> for every collected key; \<^verbatim>\<open>del\<close> raises
  \<^verbatim>\<open>KeyError\<close> for a key that is not in the dictionary, and the deletions made before
  stay.
\<close>

fun del_keys :: "'k list \<Rightarrow> ('k \<times> 'v) list \<Rightarrow> error option \<times> ('k \<times> 'v) list" where
  "del_keys [] d = (None, d)"
| "del_keys (k # ks) d =
     (if k \<in> fst ` set d then del_keys ks (AList.delete k d) else (Some KeyError, d))"

definition is_old :: "manager \<Rightarrow> datetime \<Rightarrow> conversation \<Rightarrow> bool" where
  "is_old s current_time conv \<longleftrightarrow> current_time - last_activity conv > max_conversation_age s"

definition cleanup_old_conversations :: "manager \<Rightarrow> datetime \<Rightarrow> (error + nat) \<times> manager" where
  "cleanup_old_conversations s current_time =
     (let to_remove = map fst (filter (\<lambda>(k, conv). is_old s current_time conv) (conversations s));
          (err, d) = del_keys to_remove (conversations s)
      in ((case err of Some e \<Rightarrow> Inl e | None \<Rightarrow> Inr (length to_remove)),
          s\<lparr>conversations := d\<rparr>))"

subsection \<open>Export\<close>

text \<open>
  The result of \<^verbatim>\<open>export_conversation\<close>: the shallow copy of the conversation
  dictionary whose four time entries were replaced by strings. Its message list is the
  stored one (the same references).
\<close>

record exported =
  x_id :: string
  x_created_at :: string
  x_last_activity :: string
  x_messages :: "addr list"
  x_context :: pydict
  x_user_info :: pydict
  x_satisfaction_score :: "int option"
  x_escalated :: bool
  x_resolved :: bool
  x_escalation_reason :: "string option option"
  x_escalation_time :: "string option"
  x_resolved_at :: "string option"

text \<open>
  \<^verbatim>\<open>for message in conversation["messages"]: message["timestamp"] =
  message["timestamp"].isoformat()\<close>: an assignment into each message object. A
  \<^verbatim>\<open>str\<close> has no \<^verbatim>\<open>isoformat\<close>: \<^verbatim>\<open>AttributeError\<close>, after the assignments already
  made. \<open>isoformat\<close> is \<^verbatim>\<open>datetime.isoformat\<close> of the standard library.
\<close>

fun isoformat_messages ::
  "(datetime \<Rightarrow> string) \<Rightarrow> addr list \<Rightarrow> (addr \<Rightarrow> message option)
     \<Rightarrow> error option \<times> (addr \<Rightarrow> message option)" where
  "isoformat_messages isoformat [] h = (None, h)"
| "isoformat_messages isoformat (a # as) h =
     (case h a of
        None \<Rightarrow> (Some DanglingRef, h)
      | Some m \<Rightarrow>
          (case timestamp m of
             IsoString str \<Rightarrow> (Some AttributeError, h)
           | Datetime t \<Rightarrow>
               isoformat_messages isoformat as (h(a \<mapsto> m\<lparr>timestamp := IsoString (isoformat t)\<rparr>))))"

definition export_conversation ::
  "(datetime \<Rightarrow> string) \<Rightarrow> manager \<Rightarrow> string \<Rightarrow> (error + exported option) \<times> manager" where
  "export_conversation isoformat s conversation_id =
     (case map_of (conversations s) conversation_id of
        None \<Rightarrow> (Inr None, s)
      | Some conv \<Rightarrow>
          (let conversation =
                 \<lparr>x_id = conv_id conv,
                  x_created_at = isoformat (created_at conv),
                  x_last_activity = isoformat (last_activity conv),
                  x_messages = messages conv,
                  x_context = conv_context conv,
                  x_user_info = user_info conv,
                  x_satisfaction_score = satisfaction_score conv,
                  x_escalated = escalated conv,
                  x_resolved = resolved conv,
                  x_escalation_reason = escalation_reason conv,
                  x_escalation_time = map_option isoformat (escalation_time conv),
                  x_resolved_at = map_option isoformat (resolved_at conv)\<rparr>;
               (err, h) = isoformat_messages isoformat (x_messages conversation) (heap s)
           in ((case err of Some e \<Rightarrow> Inl e | None \<Rightarrow> Inr (Some conversation)),
               s\<lparr>heap := h\<rparr>)))"

section \<open>Strings\<close>

text \<open>
  Text is a list of 8-bit characters. \<^verbatim>\<open>str.lower()\<close> is modelled on the letters
  \<open>A\<close> to \<open>Z\<close>, \<^verbatim>\<open>str.split()\<close> and \<^verbatim>\<open>str.strip()\<close> on the ASCII white space
  of Python (tab, line feed, vertical tab, form feed, carriage return, the four separators
  28 to 31, space), decimal digits on \<open>0\<close> to \<open>9\<close>.
\<close>

definition lower_char :: "char \<Rightarrow> char" where
  "lower_char c =
     (case map_of (zip ''ABCDEFGHIJKLMNOPQRSTUVWXYZ'' ''abcdefghijklmnopqrstuvwxyz'') c of
        None \<Rightarrow> c
      | Some l \<Rightarrow> l)"

definition lower :: "string \<Rightarrow> string" where
  "lower s = map lower_char s"

definition is_space :: "char \<Rightarrow> bool" where
  "is_space c \<longleftrightarrow> (of_char c :: nat) \<in> {9, 10, 11, 12, 13, 28, 29, 30, 31, 32}"

definition is_digit :: "char \<Rightarrow> bool" where
  "is_digit c \<longleftrightarrow> c \<in> set ''0123456789''"

definition strip :: "string \<Rightarrow> string" where
  "strip s = rev (dropWhile is_space (rev (dropWhile is_space s)))"

text \<open>\<^verbatim>\<open>s.split()\<close>: the maximal runs of characters that are not white space.\<close>

fun split_from :: "string \<Rightarrow> string \<Rightarrow> string list" where
  "split_from word [] = (if word = [] then [] else [word])"
| "split_from word (c # cs) =
     (if is_space c then (if word = [] then split_from [] cs else word # split_from [] cs)
      else split_from (word @ [c]) cs)"

definition split :: "string \<Rightarrow> string list" where
  "split s = split_from [] s"

section \<open>entity\_extractor.py\<close>

record entity =
  entity_type :: string
  entity_value :: string
  entity_start :: "nat option"
  entity_end :: "nat option"
  confidence :: real
  source :: string

text \<open>
  A match object of the \<^verbatim>\<open>re\<close> module: \<^verbatim>\<open>start()\<close>, \<^verbatim>\<open>end()\<close>,
  \<^verbatim>\<open>group(0)\<close> and the captured groups (\<^verbatim>\<open>groups()\<close>).
\<close>

record rmatch =
  m_start :: nat
  m_end :: nat
  group0 :: string
  groups :: "string list"

subsection \<open>The amount pattern\<close>

text \<open>
  \<^verbatim>\<open>\$?\d+(?:\.\d{2})?\<close> tried at the start of a text; the result is the length of the
  match. \<^verbatim>\<open>\$?\<close> takes a dollar sign when there is one, \<^verbatim>\<open>\d+\<close> takes all the
  digits that follow (at least one), and the optional group takes a dot and two digits when
  they come next. Backtracking finds nothing more: without its dollar sign the match would
  have to start with a digit where the dollar sign is, and the optional group accepts the
  empty string after any run of digits, so the longest run is kept.
\<close>

definition match_amount :: "string \<Rightarrow> nat option" where
  "match_amount text =
     (let dollar = (case text of [] \<Rightarrow> 0 | c # cs \<Rightarrow> if c = CHR ''$'' then 1 else 0);
          rest = drop dollar text;
          digits = takeWhile is_digit rest;
          cents = (case dropWhile is_digit rest of
                     a # b # c # cs \<Rightarrow>
                       if a = CHR ''.'' \<and> is_digit b \<and> is_digit c then 3 else 0
                   | _ \<Rightarrow> 0)
      in if digits = [] then None else Some (dollar + length digits + cents))"

text \<open>
  \<^verbatim>\<open>re.finditer\<close> for this pattern: the matches from left to right, each search
  starting where the previous match ended. \<open>pos\<close> is the offset of the text that is left,
  \<open>skip\<close> the number of its characters that the previous match still covers.
\<close>

fun amount_scan :: "nat \<Rightarrow> nat \<Rightarrow> string \<Rightarrow> rmatch list" where
  "amount_scan pos skip [] = []"
| "amount_scan pos skip (c # cs) =
     (if 0 < skip then amount_scan (Suc pos) (skip - 1) cs
      else (case match_amount (c # cs) of
              None \<Rightarrow> amount_scan (Suc pos) 0 cs
            | Some n \<Rightarrow>
                \<lparr>m_start = pos, m_end = pos + n, group0 = take n (c # cs), groups = []\<rparr>
                  # amount_scan (Suc pos) (n - 1) cs))"

definition amount_finditer :: "string \<Rightarrow> rmatch list" where
  "amount_finditer text = amount_scan 0 0 text"

subsection \<open>The pattern stage\<close>

text \<open>
  \<^verbatim>\<open>self.patterns\<close>, in the order of the dictionary. \<open>re_finditer name\<close> is
  \<^verbatim>\<open>re.finditer(self.patterns[name], text, re.IGNORECASE)\<close> of the standard library for
  the five other patterns; the amount pattern has no letter, so the flag does not change it.
\<close>

definition patterns ::
  "(string \<Rightarrow> string \<Rightarrow> rmatch list) \<Rightarrow> (string \<times> (string \<Rightarrow> rmatch list)) list" where
  "patterns re_finditer =
     [(''order_number'', re_finditer ''order_number''),
      (''email'', re_finditer ''email''),
      (''phone'', re_finditer ''phone''),
      (''product_id'', re_finditer ''product_id''),
      (''amount'', amount_finditer),
      (''date'', re_finditer ''date'')]"

definition match_entity :: "string \<Rightarrow> rmatch \<Rightarrow> entity" where
  "match_entity etype m =
     (let v = (if etype \<in> {''order_number'', ''product_id''}
               then (if groups m \<noteq> [] then hd (groups m) else group0 m)
               else group0 m)
      in \<lparr>entity_type = etype, entity_value = strip v, entity_start = Some (m_start m),
          entity_end = Some (m_end m), confidence = 9 / 10, source = ''regex''\<rparr>)"

definition extract_with_regex ::
  "(string \<Rightarrow> string \<Rightarrow> rmatch list) \<Rightarrow> string \<Rightarrow> entity list" where
  "extract_with_regex re_finditer text =
     concat (map (\<lambda>(etype, finditer). map (match_entity etype) (finditer text))
                 (patterns re_finditer))"

subsection \<open>Deduplication\<close>

text \<open>The dictionary key \<^verbatim>\<open>f"{entity['type']}_{entity['value'].lower()}"\<close>.\<close>

definition entity_key :: "entity \<Rightarrow> string" where
  "entity_key e = entity_type e @ ''_'' @ lower (entity_value e)"

fun unique_entities :: "entity list \<Rightarrow> (string \<times> entity) list \<Rightarrow> (string \<times> entity) list" where
  "unique_entities [] u = u"
| "unique_entities (e # es) u =
     (case map_of u (entity_key e) of
        None \<Rightarrow> unique_entities es (AList.update (entity_key e) e u)
      | Some old \<Rightarrow>
          if confidence e > confidence old
          then unique_entities es (AList.update (entity_key e) e u)
          else unique_entities es u)"

text \<open>
  What the loop keeps under one key, from the value \<open>b\<close> the key has before: the first
  entity, replaced by each later one of strictly higher confidence.
\<close>

fun best_of :: "entity option \<Rightarrow> entity list \<Rightarrow> entity option" where
  "best_of b [] = b"
| "best_of b (e # es) =
     (case b of None \<Rightarrow> best_of (Some e) es
      | Some old \<Rightarrow> if confidence e > confidence old then best_of (Some e) es else best_of b es)"

definition deduplicate_entities :: "entity list \<Rightarrow> entity list" where
  "deduplicate_entities entities = map snd (unique_entities entities [])"

subsection \<open>Both stages\<close>

text \<open>
  What a call may do: return, raise an exception derived from \<^verbatim>\<open>Exception\<close>, or raise one
  that is only a \<^verbatim>\<open>BaseException\<close> (\<^verbatim>\<open>KeyboardInterrupt\<close>, \<^verbatim>\<open>SystemExit\<close>), which
  \<^verbatim>\<open>except Exception\<close> does not catch.
\<close>

datatype exc = Exception string | BaseException string

datatype 'a outcome = Returns 'a | Raises exc

text \<open>
  \<open>extract_with_ai\<close> is the external stage \<^verbatim>\<open>_extract_with_ai\<close>: the prompt, the chat
  completion, the decoding of its answer.
\<close>

definition extract_entities ::
  "(string \<Rightarrow> string \<Rightarrow> rmatch list) \<Rightarrow> (string \<Rightarrow> entity list outcome) \<Rightarrow> string
     \<Rightarrow> exc + entity list" where
  "extract_entities re_finditer extract_with_ai text =
     (let regex_entities = extract_with_regex re_finditer text
      in (case extract_with_ai text of
            Returns ai_entities \<Rightarrow> Inr (deduplicate_entities (regex_entities @ ai_entities))
          | Raises (Exception e) \<Rightarrow> Inr (deduplicate_entities regex_entities)
          | Raises (BaseException e) \<Rightarrow> Inl (BaseException e)))"

section \<open>faq\_handler.py\<close>

record faq_entry =
  questions :: "string list"
  answer :: string
  category :: string

record faq_handler =
  faqs :: "(string \<times> faq_entry) list"
  similarity_threshold :: real

definition stop_words :: "string set" where
  "stop_words = set [''the'', ''a'', ''an'', ''and'', ''or'', ''but'', ''in'', ''on'', ''at'',
     ''to'', ''for'', ''of'', ''with'', ''by'', ''is'', ''are'', ''was'', ''were'', ''be'',
     ''been'', ''have'', ''has'', ''had'', ''do'', ''does'', ''did'', ''will'', ''would'',
     ''could'', ''should'', ''may'', ''might'', ''can'', ''i'', ''you'', ''he'', ''she'', ''it'',
     ''we'', ''they'', ''my'', ''your'', ''his'', ''her'', ''its'', ''our'', ''their'']"

definition calculate_keyword_score :: "string \<Rightarrow> string \<Rightarrow> real" where
  "calculate_keyword_score user_message faq_question =
     (let user_words = set (split user_message) - stop_words;
          faq_words = set (split faq_question) - stop_words
      in if faq_words = {} then 0
         else real (card (user_words \<inter> faq_words)) / real (card faq_words))"

text \<open>
  \<open>ratio a b\<close> is \<^verbatim>\<open>SequenceMatcher(None, a, b).ratio()\<close> of \<^verbatim>\<open>difflib\<close>. Scores are
  real numbers: the rounding of the floating-point products and sum is not modelled.
\<close>

definition combined_score :: "(string \<Rightarrow> string \<Rightarrow> real) \<Rightarrow> string \<Rightarrow> string \<Rightarrow> real" where
  "combined_score ratio user_message_lower question =
     (let similarity = ratio user_message_lower (lower question);
          keyword_score = calculate_keyword_score user_message_lower (lower question)
      in similarity * (7 / 10) + keyword_score * (3 / 10))"

text \<open>
  The two loops of \<^verbatim>\<open>get_faq_response\<close> over the state
  \<open>(best_match, best_score)\<close>, for any score function and any linearly ordered scores.
\<close>

fun scan_questions ::
  "(string \<Rightarrow> 's::linorder) \<Rightarrow> 's \<Rightarrow> faq_entry \<Rightarrow> string list \<Rightarrow> faq_entry option \<times> 's
     \<Rightarrow> faq_entry option \<times> 's" where
  "scan_questions score threshold faq_data [] best = best"
| "scan_questions score threshold faq_data (question # qs) (best_match, best_score) =
     (if score question > best_score \<and> score question \<ge> threshold
      then scan_questions score threshold faq_data qs (Some faq_data, score question)
      else scan_questions score threshold faq_data qs (best_match, best_score))"

fun scan_faqs ::
  "(string \<Rightarrow> 's::linorder) \<Rightarrow> 's \<Rightarrow> (string \<times> faq_entry) list \<Rightarrow> faq_entry option \<times> 's
     \<Rightarrow> faq_entry option \<times> 's" where
  "scan_faqs score threshold [] best = best"
| "scan_faqs score threshold ((faq_id, faq_data) # rest) best =
     scan_faqs score threshold rest
       (scan_questions score threshold faq_data (questions faq_data) best)"

definition get_faq_response ::
  "(string \<Rightarrow> string \<Rightarrow> real) \<Rightarrow> faq_handler \<Rightarrow> string \<Rightarrow> string option" where
  "get_faq_response ratio h user_message =
     (case fst (scan_faqs (combined_score ratio (lower user_message))
                  (similarity_threshold h) (faqs h) (None, 0)) of
        None \<Rightarrow> None
      | Some best_match \<Rightarrow> Some (answer best_match))"

text \<open>
  The selection as the specification words it: over all entries and paraphrases in
  iteration order, the first one that attains the highest combined score, when that score
  reaches the threshold.
\<close>

definition scored_questions ::
  "(string \<Rightarrow> 's) \<Rightarrow> (string \<times> faq_entry) list \<Rightarrow> ('s \<times> faq_entry) list" where
  "scored_questions score catalog =
     concat (map (\<lambda>(faq_id, faq_data). map (\<lambda>q. (score q, faq_data)) (questions faq_data))
                 catalog)"

definition best_answer :: "('s::linorder \<times> faq_entry) list \<Rightarrow> 's \<Rightarrow> string option" where
  "best_answer scored threshold =
     (if scored = [] then None
      else (let highest = Max (fst ` set scored)
            in if highest \<ge> threshold
               then map_option (\<lambda>p. answer (snd p)) (find (\<lambda>p. fst p = highest) scored)
               else None))"

section \<open>Example states\<close>

definition demo_store :: manager where
  "demo_store =
     snd (add_message
       (snd (add_message (snd (create_conversation init ''c1'' 0 0))
          ''c1'' ''user'' ''hello'' None ''m1'' 10 11))
       ''c1'' ''assistant'' ''hi'' (Some [(''intent'', PStr ''greeting'')]) ''m2'' 20 21)"

section \<open>Facts about the example states\<close>

lemma demo_store_conversations:
  "conversations demo_store =
     [(''c1'', \<lparr>conv_id = ''c1'', created_at = 0, last_activity = 21, messages = [0, 1],
        conv_context = [], user_info = [], satisfaction_score = None,
        escalated = False, resolved = False, escalation_reason = None,
        escalation_time = None, resolved_at = None\<rparr>)]"
  by (simp add: demo_store_def add_message_def create_conversation_def init_def)

lemma demo_store_heap:
  "heap demo_store 0 = Some \<lparr>msg_id = ''m1'', role = ''user'', content = ''hello'',
                             timestamp = Datetime 10, metadata = []\<rparr>"
  "heap demo_store (Suc 0) = Some \<lparr>msg_id = ''m2'', role = ''assistant'', content = ''hi'',
                             timestamp = Datetime 20, metadata = [(''intent'', PStr ''greeting'')]\<rparr>"
  by (simp_all add: demo_store_def add_message_def create_conversation_def init_def)

lemma demo_store_age: "max_conversation_age demo_store = hours 24"
  by (simp add: demo_store_def add_message_def create_conversation_def init_def)

section \<open>Unknown conversation ids\<close>

text \<open>
  Claim C2. For an id that is not a key of the store (as every id is that
  \<^verbatim>\<open>create_conversation\<close> never returned), no operation raises: \<^verbatim>\<open>add_message\<close>,
  \<^verbatim>\<open>update_context\<close>, \<^verbatim>\<open>set_user_info\<close>, \<^verbatim>\<open>escalate_conversation\<close> and
  \<^verbatim>\<open>resolve_conversation\<close> return \<^verbatim>\<open>False\<close>, \<^verbatim>\<open>get_messages\<close> returns the empty
  list, \<^verbatim>\<open>get_conversation_summary\<close> and \<^verbatim>\<open>export_conversation\<close> return \<^verbatim>\<open>None\<close>,
  and the store is the one before the call.
\<close>

theorem unknown_id:
  assumes "map_of (conversations s) cid = None"
  shows "add_message s cid r c md mid t_msg t_act = (False, s)
       \<and> update_context s cid upd t_ctx = (False, s)
       \<and> set_user_info s cid info = (False, s)
       \<and> escalate_conversation s cid reason t_esc mid' t_msg' t_act' = (False, s)
       \<and> resolve_conversation s cid score t_res = (False, s)
       \<and> get_messages s cid limit = []
       \<and> get_conversation_summary s cid = Inr None
       \<and> export_conversation isoformat s cid = (Inr None, s)"
  using assms
  by (simp add: add_message_def update_context_def set_user_info_def escalate_conversation_def
      resolve_conversation_def get_messages_def get_conversation_summary_def
      export_conversation_def)

theorem unknown_id_witness:
  "map_of (conversations demo_store) ''c2'' = None
   \<and> add_message demo_store ''c2'' ''user'' ''hello'' None ''m3'' 30 31 = (False, demo_store)
   \<and> update_context demo_store ''c2'' [(''topic'', PStr ''billing'')] 30 = (False, demo_store)
   \<and> set_user_info demo_store ''c2'' [(''name'', PStr ''Ann'')] = (False, demo_store)
   \<and> escalate_conversation demo_store ''c2'' None 30 ''m3'' 31 32 = (False, demo_store)
   \<and> resolve_conversation demo_store ''c2'' (Some 5) 30 = (False, demo_store)
   \<and> get_messages demo_store ''c2'' (Some 1) = []
   \<and> get_conversation_summary demo_store ''c2'' = Inr None
   \<and> export_conversation (\<lambda>t. ''2026'') demo_store ''c2'' = (Inr None, demo_store)"
proof -
  have unknown: "map_of (conversations demo_store) ''c2'' = None"
    by (simp add: demo_store_conversations)
  show ?thesis
    using unknown
      unknown_id [OF unknown, of "''user''" "''hello''" None "''m3''" 30 31
        "[(''topic'', PStr ''billing'')]" 30 "[(''name'', PStr ''Ann'')]" None 30 "''m3''" 31 32
        "Some 5" 30 "Some 1" "\<lambda>t. ''2026''"]
    by simp
qed

section \<open>Eviction\<close>

lemma del_keys_filter:
  "distinct ks \<Longrightarrow> set ks \<subseteq> fst ` set d \<Longrightarrow>
   del_keys ks d = (None, filter (\<lambda>p. fst p \<notin> set ks) d)"
proof (induction ks arbitrary: d)
  case Nil
  then show ?case by simp
next
  case (Cons k ks)
  have sub: "set ks \<subseteq> fst ` set (AList.delete k d)"
  proof
    fix x assume x: "x \<in> set ks"
    then have "x \<noteq> k" using Cons.prems(1) by auto
    moreover obtain v where "(x, v) \<in> set d" using x Cons.prems(2) by auto
    ultimately show "x \<in> fst ` set (AList.delete k d)"
      by (force simp: AList.delete_eq)
  qed
  have "del_keys ks (AList.delete k d) = (None, filter (\<lambda>p. fst p \<notin> set ks) (AList.delete k d))"
    using Cons.IH [OF _ sub] Cons.prems(1) by simp
  moreover have "filter (\<lambda>p. fst p \<notin> set ks) (AList.delete k d) = filter (\<lambda>p. fst p \<notin> set (k # ks)) d"
    by (auto simp: AList.delete_eq intro: filter_cong)
  ultimately show ?case using Cons.prems by simp
qed

lemma filter_keys_of_filter:
  assumes "distinct (map fst d)"
  shows "filter (\<lambda>p. fst p \<notin> set (map fst (filter P d))) d = filter (\<lambda>p. \<not> P p) d"
proof (rule filter_cong [OF refl])
  fix p assume p: "p \<in> set d"
  have "fst p \<in> fst ` {q \<in> set d. P q} \<longleftrightarrow> P p"
  proof
    assume "fst p \<in> fst ` {q \<in> set d. P q}"
    then obtain q where q: "q \<in> set d" "P q" "fst q = fst p" by auto
    have "q = p"
      using assms p q(1,3) by (metis eq_key_imp_eq_value prod.collapse)
    then show "P p" using q(2) by simp
  next
    assume "P p" then show "fst p \<in> fst ` {q \<in> set d. P q}" using p by auto
  qed
  then show "(fst p \<notin> set (map fst (filter P d))) = (\<not> P p)" by simp
qed

lemma cleanup_eq:
  assumes "distinct (map fst (conversations s))"
  shows "cleanup_old_conversations s now =
     (Inr (length (filter (\<lambda>(k, conv). is_old s now conv) (conversations s))),
      s\<lparr>conversations := filter (\<lambda>p. \<not> is_old s now (snd p)) (conversations s)\<rparr>)"
proof -
  let ?P = "\<lambda>(k, conv). is_old s now conv"
  let ?ks = "map fst (filter ?P (conversations s))"
  have d: "distinct ?ks" using assms by (simp add: distinct_map_filter)
  have sub: "set ?ks \<subseteq> fst ` set (conversations s)" by auto
  have "del_keys ?ks (conversations s) = (None, filter (\<lambda>p. \<not> ?P p) (conversations s))"
    using del_keys_filter [OF d sub] filter_keys_of_filter [OF assms, of ?P] by simp
  then show ?thesis by (simp add: cleanup_old_conversations_def case_prod_beta)
qed


lemma map_of_filter_snd:
  "distinct (map fst d) \<Longrightarrow>
   map_of (filter (\<lambda>p. Q (snd p)) d) k =
     (case map_of d k of None \<Rightarrow> None | Some c \<Rightarrow> if Q c then Some c else None)"
proof (induction d)
  case Nil
  then show ?case by simp
next
  case (Cons p d)
  obtain k' c' where p: "p = (k', c')" by (cases p)
  have none: "k' \<notin> fst ` set (filter (\<lambda>p. Q (snd p)) d)"
    using Cons.prems p by auto
  show ?case
  proof (cases "k' = k")
    case True
    then have "map_of (filter (\<lambda>p. Q (snd p)) d) k = None"
      using none by (simp add: map_of_eq_None_iff)
    then show ?thesis using True p by simp
  next
    case False
    then show ?thesis using Cons p by simp
  qed
qed

lemma add_message_known:
  assumes "fst (add_message s0 cid r c md mid t_msg t_act)"
  shows "\<exists>conv. map_of (conversations (snd (add_message s0 cid r c md mid t_msg t_act))) cid = Some conv
           \<and> last_activity conv = t_act"
  using assms
  by (auto simp: add_message_def Let_def AList.update_conv' split: option.splits)

text \<open>
  Claim C3. \<^verbatim>\<open>cleanup_old_conversations\<close> returns normally; it removes a conversation
  exactly when \<open>now - last_activity\<close> is strictly greater than the maximal age and leaves the
  others as they are; the number it returns is the number of conversations removed; and a
  conversation that \<^verbatim>\<open>add_message\<close> touched one second before the sweep, the maximal age
  being 24 hours, is still in the store afterwards.
\<close>

theorem evict_expired:
  assumes "distinct (map fst (conversations s))"
  shows "\<exists>n s'. cleanup_old_conversations s now = (Inr n, s')
     \<and> (\<forall>k conv. map_of (conversations s) k = Some conv \<longrightarrow>
           map_of (conversations s') k =
             (if now - last_activity conv > max_conversation_age s then None else Some conv))
     \<and> (\<forall>k. map_of (conversations s) k = None \<longrightarrow> map_of (conversations s') k = None)
     \<and> n = length (conversations s) - length (conversations s')
     \<and> heap s' = heap s \<and> max_conversation_age s' = max_conversation_age s
     \<and> (\<forall>s0 cid r c md mid t_msg t_act.
           s = snd (add_message s0 cid r c md mid t_msg t_act)
           \<and> fst (add_message s0 cid r c md mid t_msg t_act)
           \<and> max_conversation_age s = hours 24 \<and> now = t_act + seconds 1
           \<longrightarrow> map_of (conversations s') cid = map_of (conversations s) cid
               \<and> map_of (conversations s') cid \<noteq> None)"
proof -
  let ?keep = "filter (\<lambda>p. \<not> is_old s now (snd p)) (conversations s)"
  let ?n = "length (filter (\<lambda>(k, conv). is_old s now conv) (conversations s))"
  let ?s' = "s\<lparr>conversations := ?keep\<rparr>"
  have run: "cleanup_old_conversations s now = (Inr ?n, ?s')"
    by (rule cleanup_eq [OF assms])
  have look: "map_of ?keep k =
      (case map_of (conversations s) k of None \<Rightarrow> None
       | Some c \<Rightarrow> if \<not> is_old s now c then Some c else None)" for k
    by (rule map_of_filter_snd [OF assms])
  have known: "\<forall>k conv. map_of (conversations s) k = Some conv \<longrightarrow>
           map_of (conversations ?s') k =
             (if now - last_activity conv > max_conversation_age s then None else Some conv)"
  proof (intro allI impI)
    fix k conv assume "map_of (conversations s) k = Some conv"
    then show "map_of (conversations ?s') k =
             (if now - last_activity conv > max_conversation_age s then None else Some conv)"
      using look [of k] by (simp add: is_old_def)
  qed
  have unknown: "\<forall>k. map_of (conversations s) k = None \<longrightarrow> map_of (conversations ?s') k = None"
    by (simp add: look)
  have "length (conversations s) =
          length (filter (\<lambda>p. is_old s now (snd p)) (conversations s)) + length ?keep"
    by (rule sum_length_filter_compl [symmetric])
  then have count: "?n = length (conversations s) - length (conversations ?s')"
    by (simp add: case_prod_unfold)
  have recent: "\<forall>s0 cid r c md mid t_msg t_act.
           s = snd (add_message s0 cid r c md mid t_msg t_act)
           \<and> fst (add_message s0 cid r c md mid t_msg t_act)
           \<and> max_conversation_age s = hours 24 \<and> now = t_act + seconds 1
           \<longrightarrow> map_of (conversations ?s') cid = map_of (conversations s) cid
               \<and> map_of (conversations ?s') cid \<noteq> None"
  proof (intro allI impI)
    fix s0 cid r c md mid t_msg t_act
    assume h: "s = snd (add_message s0 cid r c md mid t_msg t_act)
           \<and> fst (add_message s0 cid r c md mid t_msg t_act)
           \<and> max_conversation_age s = hours 24 \<and> now = t_act + seconds 1"
    then obtain conv where conv: "map_of (conversations s) cid = Some conv"
      "last_activity conv = t_act"
      using add_message_known [of s0 cid r c md mid t_msg t_act] by auto
    from h have age: "max_conversation_age s = hours 24" and sweep: "now = t_act + seconds 1"
      by blast+
    have "\<not> is_old s now conv"
      using age sweep conv(2) by (simp add: is_old_def hours_def seconds_def)
    then show "map_of (conversations ?s') cid = map_of (conversations s) cid
               \<and> map_of (conversations ?s') cid \<noteq> None"
      using conv(1) by (simp add: look)
  qed
  show ?thesis
    using run known unknown count recent by (intro exI [of _ ?n] exI [of _ ?s']) simp
qed

theorem evict_expired_witness:
  "distinct (map fst (conversations demo_store))
   \<and> cleanup_old_conversations demo_store (21 + seconds 1) = (Inr 0, demo_store)
   \<and> fst (cleanup_old_conversations demo_store (22 + hours 24)) = Inr 1
   \<and> conversations (snd (cleanup_old_conversations demo_store (22 + hours 24))) = []"
  using evict_expired [of demo_store "21 + seconds 1"]
  by (simp add: cleanup_old_conversations_def demo_store_conversations demo_store_age
      is_old_def hours_def seconds_def)

section \<open>Reading messages\<close>

lemma slice_from_neg:
  "0 < l \<Longrightarrow> slice_from xs (- l) = drop (length xs - nat l) xs"
proof -
  assume l: "0 < l"
  have "nat (max (int (length xs) + - l) 0) = length xs - nat l"
    using l by (simp add: max_def) linarith
  then show ?thesis using l by (simp add: slice_from_def Let_def)
qed

lemma slice_from_pos:
  "l < 0 \<Longrightarrow> slice_from xs (- l) = drop (nat (- l)) xs"
proof -
  assume l: "l < 0"
  have "drop (nat (min (- l) (int (length xs)))) xs = drop (nat (- l)) xs"
    by (cases "- l \<le> int (length xs)") (simp_all add: min_def)
  then show ?thesis using l by (simp add: slice_from_def Let_def)
qed

text \<open>
  Claim C7, as the code has it. For an unknown id \<^verbatim>\<open>get_messages\<close> returns the empty
  list. For a known conversation it returns all the messages when the limit is omitted or
  is \<open>0\<close> (\<^verbatim>\<open>if limit:\<close> takes \<open>0\<close> for no limit), and for a positive limit exactly the
  most recent \<open>limit\<close> messages (all of them when there are no more), in the order of the
  transcript.
\<close>

theorem get_messages_limit:
  "(map_of (conversations s) cid = None \<longrightarrow> get_messages s cid limit = [])
   \<and> (\<forall>conv. map_of (conversations s) cid = Some conv \<longrightarrow>
         get_messages s cid None = messages conv
       \<and> get_messages s cid (Some 0) = messages conv
       \<and> (\<forall>l. 0 < l \<longrightarrow>
             get_messages s cid (Some l)
               = drop (length (messages conv) - nat l) (messages conv)))"
  by (simp add: get_messages_def slice_from_neg)

theorem get_messages_limit_witness:
  "map_of (conversations demo_store) ''c2'' = None
   \<and> get_messages demo_store ''c2'' (Some 1) = []
   \<and> map_of (conversations demo_store) ''c1'' \<noteq> None
   \<and> get_messages demo_store ''c1'' None = [0, 1]
   \<and> get_messages demo_store ''c1'' (Some 0) = [0, 1]
   \<and> get_messages demo_store ''c1'' (Some 1) = [1]
   \<and> get_messages demo_store ''c1'' (Some 5) = [0, 1]"
  using get_messages_limit [of demo_store "''c2''" "Some 1"]
    get_messages_limit [of demo_store "''c1''" None]
  by (simp add: demo_store_conversations)

theorem get_messages_limit_counterexample:
  "get_messages demo_store ''c1'' None = [0, 1]
   \<and> get_messages demo_store ''c1'' (Some 0) = [0, 1]
   \<and> get_messages demo_store ''c1'' (Some 0) \<noteq> drop (length [0, 1 :: nat] - nat 0) [0, 1]"
  by (simp add: get_messages_def demo_store_conversations)

section \<open>Last activity\<close>

lemma last_activity_updated:
  assumes "map_of (conversations s) cid = Some conv"
  shows "map_option last_activity
           (map_of (conversations (snd (add_message s cid r c md mid t_msg t_act))) cid) = Some t_act"
    and "map_option last_activity
           (map_of (conversations (snd (update_context s cid upd t_act))) cid) = Some t_act"
    and "map_option last_activity
           (map_of (conversations
              (snd (escalate_conversation s cid reason t_esc mid t_msg t_act))) cid) = Some t_act"
  using assms
  by (simp_all add: add_message_def update_context_def escalate_conversation_def Let_def
      AList.update_conv')

lemma last_activity_kept:
  assumes "map_of (conversations s) cid = Some conv"
  shows "map_option last_activity
           (map_of (conversations (snd (set_user_info s cid info))) cid)
         = Some (last_activity conv)"
    and "map_option last_activity
           (map_of (conversations (snd (resolve_conversation s cid score t_res))) cid)
         = Some (last_activity conv)"
  using assms
  by (simp_all add: set_user_info_def resolve_conversation_def Let_def AList.update_conv'
      split: option.splits)

text \<open>
  Claim C4 on the code. In a store whose conversation \<open>c1\<close> was last active at time \<open>21\<close>,
  \<^verbatim>\<open>set_user_info\<close> succeeds and stores the user information, and
  \<^verbatim>\<open>resolve_conversation\<close> at time \<open>500\<close> succeeds, but both leave the last activity at
  \<open>21\<close>; \<^verbatim>\<open>update_context\<close> at time \<open>500\<close> moves it to \<open>500\<close>.
\<close>

theorem set_user_info_last_activity:
  "set_user_info demo_store ''c1'' [(''name'', PStr ''Ann'')]
     = (True, demo_store\<lparr>conversations :=
          [(''c1'', \<lparr>conv_id = ''c1'', created_at = 0, last_activity = 21, messages = [0, 1],
             conv_context = [], user_info = [(''name'', PStr ''Ann'')],
             satisfaction_score = None, escalated = False, resolved = False,
             escalation_reason = None, escalation_time = None, resolved_at = None\<rparr>)]\<rparr>)
   \<and> map_option last_activity
        (map_of (conversations (snd (resolve_conversation demo_store ''c1'' (Some 5) 500))) ''c1'')
       = Some 21
   \<and> map_option last_activity
        (map_of (conversations (snd (update_context demo_store ''c1'' [(''topic'', PStr ''billing'')] 500))) ''c1'')
       = Some 500"
  by (simp add: set_user_info_def resolve_conversation_def update_context_def
      demo_store_conversations dict_update_def)

section \<open>Export\<close>

lemma demo_store_summary:
  "get_conversation_summary demo_store ''c1'' =
     Inr (Some \<lparr>sum_conversation_id = ''c1'', sum_created_at = 0, sum_last_activity = 21,
                duration_seconds = Some 10, message_count = 2,
                message_counts = [(''user'', 1), (''assistant'', 1)],
                intents_discussed = [PStr ''greeting''], sum_escalated = False,
                sum_resolved = False, sum_satisfaction_score = None, sum_user_info = []\<rparr>)"
  by (simp add: get_conversation_summary_def demo_store_conversations demo_store_heap
      deref_all_def duration_of_def)

lemma export_keeps_conversations:
  "conversations (snd (export_conversation isoformat s cid)) = conversations s"
  by (simp add: export_conversation_def Let_def split: option.splits prod.splits)

text \<open>
  Claim C1 on the code. The first message of the example store holds the \<^verbatim>\<open>datetime\<close>
  \<open>10\<close>. \<^verbatim>\<open>export_conversation\<close> returns the record, and afterwards the stored message
  holds the string \<open>isoformat 10\<close>: the export assigned into the message objects that the
  store shares with the shallow copy. The summary, which was computed before the export,
  then raises \<^verbatim>\<open>TypeError\<close>, and a second export raises \<^verbatim>\<open>AttributeError\<close>.
\<close>

theorem export_changes_stored_timestamps:
  "map_option timestamp (heap demo_store 0) = Some (Datetime 10)
   \<and> fst (export_conversation isoformat demo_store ''c1'') =
       Inr (Some \<lparr>x_id = ''c1'', x_created_at = isoformat 0, x_last_activity = isoformat 21,
                  x_messages = [0, 1], x_context = [], x_user_info = [],
                  x_satisfaction_score = None, x_escalated = False, x_resolved = False,
                  x_escalation_reason = None, x_escalation_time = None, x_resolved_at = None\<rparr>)
   \<and> map_option timestamp (heap (snd (export_conversation isoformat demo_store ''c1'')) 0)
       = Some (IsoString (isoformat 10))
   \<and> get_conversation_summary demo_store ''c1'' \<noteq> Inl TypeError
   \<and> get_conversation_summary (snd (export_conversation isoformat demo_store ''c1'')) ''c1''
       = Inl TypeError
   \<and> fst (export_conversation isoformat
            (snd (export_conversation isoformat demo_store ''c1'')) ''c1'')
       = Inl AttributeError"
  by (simp add: export_conversation_def get_conversation_summary_def demo_store_conversations
      demo_store_heap deref_all_def duration_of_def)

section \<open>Entity extraction\<close>

lemma is_digit_not_dollar: "is_digit c \<Longrightarrow> c \<noteq> CHR ''$''"
  by (auto simp: is_digit_def)

lemma match_amount_digit: "is_digit c \<Longrightarrow> match_amount (c # cs) \<noteq> None"
  by (simp add: match_amount_def Let_def is_digit_not_dollar)

lemma amount_scan_nonempty:
  "\<exists>c\<in>set xs. is_digit c \<Longrightarrow> amount_scan pos 0 xs \<noteq> []"
proof (induction xs arbitrary: pos)
  case Nil
  then show ?case by simp
next
  case (Cons c cs)
  show ?case
  proof (cases "match_amount (c # cs)")
    case None
    then have "\<not> is_digit c" using match_amount_digit by blast
    then have "\<exists>d\<in>set cs. is_digit d" using Cons.prems by auto
    then have "amount_scan (Suc pos) 0 cs \<noteq> []" by (rule Cons.IH)
    then show ?thesis using None by simp
  next
    case (Some n)
    then show ?thesis by simp
  qed
qed

lemma amount_finditer_example:
  "amount_finditer ''call 555-1234'' =
     [\<lparr>m_start = 5, m_end = 8, group0 = ''555'', groups = []\<rparr>,
      \<lparr>m_start = 9, m_end = 13, group0 = ''1234'', groups = []\<rparr>]"
  by (simp add: amount_finditer_def match_amount_def is_digit_def)

lemma extract_with_regex_example:
  "extract_with_regex (\<lambda>name t. []) ''call 555-1234'' =
     [\<lparr>entity_type = ''amount'', entity_value = ''555'', entity_start = Some 5,
       entity_end = Some 8, confidence = 9 / 10, source = ''regex''\<rparr>,
      \<lparr>entity_type = ''amount'', entity_value = ''1234'', entity_start = Some 9,
       entity_end = Some 13, confidence = 9 / 10, source = ''regex''\<rparr>]"
  by (simp add: extract_with_regex_def patterns_def amount_finditer_example match_entity_def
      strip_def is_space_def)

text \<open>
  Claim C10. A text with at least one decimal digit gives at least one entity of type
  \<open>amount\<close> in the pattern stage, whatever the other five patterns find: the amount
  pattern wants neither a currency sign nor any context around a run of digits.
\<close>

theorem digit_gives_amount:
  assumes "\<exists>c\<in>set text. is_digit c"
  shows "\<exists>e\<in>set (extract_with_regex re_finditer text). entity_type e = ''amount''"
proof -
  from assms have "amount_finditer text \<noteq> []"
    by (simp add: amount_finditer_def amount_scan_nonempty)
  then obtain m where m: "m \<in> set (amount_finditer text)"
    by (cases "amount_finditer text") auto
  have "match_entity ''amount'' m \<in> set (extract_with_regex re_finditer text)"
    using m by (simp add: extract_with_regex_def patterns_def)
  moreover have "entity_type (match_entity ''amount'' m) = ''amount''"
    by (simp add: match_entity_def Let_def)
  ultimately show ?thesis by blast
qed

theorem digit_gives_amount_witness:
  "(\<exists>c\<in>set ''call 555-1234''. is_digit c)
   \<and> (\<exists>e\<in>set (extract_with_regex (\<lambda>name t. []) ''call 555-1234'').
         entity_type e = ''amount'' \<and> entity_value e = ''555'')"
proof -
  have digit: "\<exists>c\<in>set ''call 555-1234''. is_digit c"
    by (simp add: is_digit_def)
  show ?thesis
    using digit digit_gives_amount [OF digit, of "\<lambda>name t. []"]
    by (simp add: extract_with_regex_example)
qed

text \<open>
  Claim C8. When the external stage raises an exception (one derived from
  \<^verbatim>\<open>Exception\<close>), \<^verbatim>\<open>extract_entities\<close> returns normally, and what it returns is the
  deduplicated output of the pattern stage alone.
\<close>

theorem extract_entities_ai_error:
  assumes "extract_with_ai text = Raises (Exception e)"
  shows "extract_entities re_finditer extract_with_ai text
           = Inr (deduplicate_entities (extract_with_regex re_finditer text))"
  using assms by (simp add: extract_entities_def)

theorem extract_entities_ai_error_witness:
  "(\<lambda>t. Raises (Exception ''timeout'')) ''call 555-1234'' = Raises (Exception ''timeout'')
   \<and> extract_entities (\<lambda>name t. []) (\<lambda>t. Raises (Exception ''timeout'')) ''call 555-1234'' =
     Inr [\<lparr>entity_type = ''amount'', entity_value = ''555'', entity_start = Some 5,
            entity_end = Some 8, confidence = 9 / 10, source = ''regex''\<rparr>,
          \<lparr>entity_type = ''amount'', entity_value = ''1234'', entity_start = Some 9,
            entity_end = Some 13, confidence = 9 / 10, source = ''regex''\<rparr>]"
  using extract_entities_ai_error [of "\<lambda>t. Raises (Exception ''timeout'')" "''call 555-1234''"
      "''timeout''" "\<lambda>name t. []"]
  by (simp add: extract_with_regex_example deduplicate_entities_def entity_key_def lower_def
      lower_char_def)

section \<open>Deduplication\<close>

lemma unique_entities_lookup:
  "map_of (unique_entities es u) k = best_of (map_of u k) (filter (\<lambda>e. entity_key e = k) es)"
  by (induction es arbitrary: u) (auto simp: AList.update_conv' split: option.splits)

lemma deduplicate_case_variants:
  "deduplicate_entities
     [\<lparr>entity_type = ''order_number'', entity_value = ''ABC123'', entity_start = Some 6,
       entity_end = Some 12, confidence = 6 / 10, source = ''regex''\<rparr>,
      \<lparr>entity_type = ''order_number'', entity_value = ''abc123'', entity_start = None,
       entity_end = None, confidence = 9 / 10, source = ''ai''\<rparr>]
   = [\<lparr>entity_type = ''order_number'', entity_value = ''abc123'', entity_start = None,
       entity_end = None, confidence = 9 / 10, source = ''ai''\<rparr>]"
  by (simp add: deduplicate_entities_def entity_key_def lower_def lower_char_def)

text \<open>
  Claim C5 on the code. The pattern entity of type \<open>order_number\<close> and value \<open>ABC123\<close> and
  a model entity of type \<open>order\<close> and value \<open>number_abc123\<close> have different identities
  (type, lowercased value), but the same dictionary key \<open>order_number_abc123\<close>: the
  deduplication merges them and returns one entity.
\<close>

theorem deduplicate_key_collision:
  "deduplicate_entities
     [\<lparr>entity_type = ''order_number'', entity_value = ''ABC123'', entity_start = Some 6,
       entity_end = Some 12, confidence = 9 / 10, source = ''regex''\<rparr>,
      \<lparr>entity_type = ''order'', entity_value = ''number_abc123'', entity_start = None,
       entity_end = None, confidence = 8 / 10, source = ''ai''\<rparr>]
   = [\<lparr>entity_type = ''order_number'', entity_value = ''ABC123'', entity_start = Some 6,
       entity_end = Some 12, confidence = 9 / 10, source = ''regex''\<rparr>]
   \<and> (''order_number'', lower ''ABC123'') \<noteq> (''order'', lower ''number_abc123'')"
  by (simp add: deduplicate_entities_def entity_key_def lower_def lower_char_def)

end
